theory Spec2Isabelle
  imports Main "HOL-Library.Word"
begin

section \<open>Python strings and bytes\<close>

text \<open>
  A \<^verbatim>\<open>str\<close> is a list of code points; \<^typ>\<open>char\<close> holds the code points
  U+0000 to U+00FF, and the string operations below are Python's on that range.
  \<^verbatim>\<open>bytes\<close> is a list of 8-bit words.
\<close>

type_synonym bytes = "8 word list"

text \<open>
  What \<^verbatim>\<open>bytes.decode\<close> returns can hold any code point, so the text it yields is a
  list of code points as numbers.
\<close>

type_synonym unicode = "nat list"

definition code_points :: "string \<Rightarrow> unicode" where
  "code_points s = map of_char s"

definition py_isspace :: "char \<Rightarrow> bool" where
  "py_isspace c =
     (let n = (of_char c :: nat)
      in (9 \<le> n \<and> n \<le> 13) \<or> (28 \<le> n \<and> n \<le> 32) \<or> n = 133 \<or> n = 160)"

definition py_strip :: "string \<Rightarrow> string" where
  "py_strip s = rev (dropWhile py_isspace (rev (dropWhile py_isspace s)))"

definition py_lower_char :: "char \<Rightarrow> char" where
  "py_lower_char c =
     (let n = (of_char c :: nat)
      in if (65 \<le> n \<and> n \<le> 90) \<or> (192 \<le> n \<and> n \<le> 222 \<and> n \<noteq> 215)
         then char_of (n + 32) else c)"

definition py_lower :: "string \<Rightarrow> string" where
  "py_lower s = map py_lower_char s"

text \<open>\<^verbatim>\<open>needle in haystack\<close> on strings: the needle occurs as a contiguous run.\<close>

fun py_in :: "string \<Rightarrow> string \<Rightarrow> bool" where
  "py_in needle [] = (needle = [])"
| "py_in needle (c # cs) = (take (length needle) (c # cs) = needle \<or> py_in needle cs)"

text \<open>How an f-string renders an \<^verbatim>\<open>int\<close>.\<close>

fun str_nat :: "nat \<Rightarrow> string" where
  "str_nat n =
     (if n < 10 then [char_of (48 + n)]
      else str_nat (n div 10) @ [char_of (48 + n mod 10)])"

declare str_nat.simps [simp del]

definition str_int :: "int \<Rightarrow> string" where
  "str_int i = (if i < 0 then CHR ''-'' # str_nat (nat (- i)) else str_nat (nat i))"

text \<open>\<^verbatim>\<open>s.encode('utf-8')\<close>: one byte below U+0080, two bytes from there to U+00FF.\<close>

definition encode_utf8_char :: "char \<Rightarrow> bytes" where
  "encode_utf8_char c =
     (let n = (of_char c :: nat)
      in if n < 128 then [of_nat n]
         else [of_nat (192 + n div 64), of_nat (128 + n mod 64)])"

definition encode_utf8 :: "string \<Rightarrow> bytes" where
  "encode_utf8 s = concat (map encode_utf8_char s)"

text \<open>
  \<^verbatim>\<open>b.decode('utf-8')\<close>, strict as Python's default: sequences of one to four bytes,
  no overlong form, no surrogate, nothing above U+10FFFF; \<open>None\<close> is
  \<^verbatim>\<open>UnicodeDecodeError\<close>.
\<close>

definition utf8_continuation :: "8 word \<Rightarrow> bool" where
  "utf8_continuation b = (0x80 \<le> b \<and> b \<le> 0xBF)"

fun decode_utf8 :: "bytes \<Rightarrow> unicode option" where
  "decode_utf8 [] = Some []"
| "decode_utf8 (b # bs) =
     (if b < 0x80 then map_option ((#) (unat b)) (decode_utf8 bs)
      else if 0xC2 \<le> b \<and> b \<le> 0xDF then
        (case bs of
           b2 # rest \<Rightarrow>
             if utf8_continuation b2
             then map_option ((#) (64 * (unat b - 192) + (unat b2 - 128))) (decode_utf8 rest)
             else None
         | _ \<Rightarrow> None)
      else if 0xE0 \<le> b \<and> b \<le> 0xEF then
        (case bs of
           b2 # b3 # rest \<Rightarrow>
             if utf8_continuation b2 \<and> utf8_continuation b3
                \<and> (if b = 0xE0 then 0xA0 \<le> b2 else True)
                \<and> (if b = 0xED then b2 \<le> 0x9F else True)
             then map_option
                    ((#) (4096 * (unat b - 224) + 64 * (unat b2 - 128) + (unat b3 - 128)))
                    (decode_utf8 rest)
             else None
         | _ \<Rightarrow> None)
      else if 0xF0 \<le> b \<and> b \<le> 0xF4 then
        (case bs of
           b2 # b3 # b4 # rest \<Rightarrow>
             if utf8_continuation b2 \<and> utf8_continuation b3 \<and> utf8_continuation b4
                \<and> (if b = 0xF0 then 0x90 \<le> b2 else True)
                \<and> (if b = 0xF4 then b2 \<le> 0x8F else True)
             then map_option
                    ((#) (262144 * (unat b - 240) + 4096 * (unat b2 - 128)
                          + 64 * (unat b3 - 128) + (unat b4 - 128)))
                    (decode_utf8 rest)
             else None
         | _ \<Rightarrow> None)
      else None)"

text \<open>A \<^verbatim>\<open>bytes\<close> literal of ASCII characters, such as \<^verbatim>\<open>b"2a"\<close>.\<close>

definition bytes_literal :: "string \<Rightarrow> bytes" where
  "bytes_literal s = map (\<lambda>c. of_nat (of_char c)) s"

text \<open>\<^verbatim>\<open>hashlib\<close>'s \<^verbatim>\<open>hexdigest()\<close> of a digest: two lowercase hexadecimal digits
  per byte, the high half first.\<close>

definition hexdigest :: "bytes \<Rightarrow> string" where
  "hexdigest digest =
     concat (map (\<lambda>b. [''0123456789abcdef'' ! (unat b div 16),
                        ''0123456789abcdef'' ! (unat b mod 16)]) digest)"

section \<open>Terminal input\<close>

text \<open>
  The operator's answers are a list of lines, consumed in order by \<^verbatim>\<open>input()\<close> and
  \<^verbatim>\<open>getpass.getpass()\<close>. Reading when no line is left raises \<^verbatim>\<open>EOFError\<close>, as Python
  does at end of input. \<^verbatim>\<open>sys.exit(n)\<close> raises \<^verbatim>\<open>SystemExit\<close>. The other two
  exceptions are the ones that leave a function of the script uncaught: bcrypt's
  \<^verbatim>\<open>ValueError\<close> and psycopg2's \<^verbatim>\<open>InterfaceError\<close> on a session that is closed.
\<close>

datatype exn = SystemExit int | EOFError | ValueError | InterfaceError

type_synonym 'a io = "string list \<Rightarrow> (exn + 'a) \<times> string list"

definition getpass :: "string io" where
  "getpass ins = (case ins of [] \<Rightarrow> (Inl EOFError, []) | l # rest \<Rightarrow> (Inr l, rest))"

definition py_input :: "string io" where
  "py_input ins = (case ins of [] \<Rightarrow> (Inl EOFError, []) | l # rest \<Rightarrow> (Inr l, rest))"

section \<open>Password entry\<close>

text \<open>
  \<^verbatim>\<open>get_password_input\<close>: the \<^verbatim>\<open>while True\<close> loop reads one entry per round, so it is a
  recursion over the remaining input. \<^verbatim>\<open>len\<close> counts the characters of the entry.
\<close>

fun get_password_input :: "int \<Rightarrow> string io" where
  "get_password_input min_length [] = (Inl EOFError, [])"
| "get_password_input min_length (password # ins) =
     (if int (length password) < min_length
      then get_password_input min_length ins
      else (Inr password, ins))"

text \<open>
  \<^verbatim>\<open>confirm_password\<close>: \<^verbatim>\<open>for attempt in range(max_attempts)\<close> is a recursion over the
  list of attempt numbers; \<^verbatim>\<open>None\<close> is the value after the last one.
\<close>

fun confirm_password_loop :: "string \<Rightarrow> nat list \<Rightarrow> string option io" where
  "confirm_password_loop original [] ins = (Inr None, ins)"
| "confirm_password_loop original (attempt # attempts) ins =
     (case getpass ins of
        (Inl e, rest) \<Rightarrow> (Inl e, rest)
      | (Inr confirm, rest) \<Rightarrow>
          if confirm = original then (Inr (Some confirm), rest)
          else confirm_password_loop original attempts rest)"

definition confirm_password :: "string \<Rightarrow> nat \<Rightarrow> string option io" where
  "confirm_password original max_attempts =
     confirm_password_loop original [0..<max_attempts]"

text \<open>Steps 2 and 3 of \<^verbatim>\<open>main\<close>: collect a password, confirm it, start over when the
  confirmation fails.\<close>

function main_collect_password :: "string io" where
  "main_collect_password ins =
     (case get_password_input 6 ins of
        (Inl e, rest) \<Rightarrow> (Inl e, rest)
      | (Inr password, rest) \<Rightarrow>
          (case confirm_password password 3 rest of
             (Inl e, rest') \<Rightarrow> (Inl e, rest')
           | (Inr None, rest') \<Rightarrow> main_collect_password rest'
           | (Inr (Some confirmed), rest') \<Rightarrow> (Inr password, rest')))"
  by pat_completeness auto
termination
proof (relation "measure length")
  show "wf (measure length)" by simp
next
  fix ins :: "string list" and x rest x2 xa rest'
  assume g: "(x, rest) = get_password_input 6 ins" and "x = Inr x2"
    and c: "(xa, rest') = confirm_password x2 3 rest"
  have g_len: "length (snd (get_password_input m xs)) \<le> length xs" for m xs
    by (induction xs) auto
  have c_len: "length (snd (confirm_password_loop p as xs)) \<le> length xs" for p as xs
    by (induction as arbitrary: xs) (auto simp: getpass_def le_SucI split: list.splits)
  have g_lt: "length (snd (get_password_input m xs)) < length xs"
    if "fst (get_password_input m xs) = Inr p" for m xs p
    using that by (induction xs) (auto simp: less_Suc_eq_le g_len split: if_splits)
  from g \<open>x = Inr x2\<close> have "length rest < length ins"
    using g_lt [of 6 ins x2] by (metis fst_conv snd_conv)
  moreover from c have "length rest' \<le> length rest"
    using c_len [of x2 "[0..<3]" rest] by (metis confirm_password_def snd_conv)
  ultimately show "(rest', ins) \<in> measure length" by simp
qed

section \<open>The account store\<close>

text \<open>
  A row of table \<^verbatim>\<open>account\<close> with the columns the tool reads and writes. A psycopg2
  connection runs one transaction at a time: \<open>pending\<close> is the table as the open
  transaction sees it, \<open>committed\<close> the table as the server holds it; \<open>closed\<close> says
  that the session has been closed or lost.
\<close>

record account =
  col_id :: int
  col_username :: string
  col_inactive :: bool
  col_password :: unicode
  col_passhash :: unicode

record connection =
  committed :: "account list"
  pending :: "account list"
  closed :: bool

text \<open>
  \<^verbatim>\<open>find_account\<close>: the rows whose \<^verbatim>\<open>LOWER(username)\<close> equals \<^verbatim>\<open>LOWER\<close> of the search
  term, in the server's scan order; \<^verbatim>\<open>fetchone()\<close> is the first of them. \<^verbatim>\<open>LOWER\<close> is
  the server's function and depends on its collation, so it is a parameter. On a closed
  session \<^verbatim>\<open>conn.cursor()\<close> raises \<^verbatim>\<open>InterfaceError\<close>; on an open one the query is
  taken to succeed.
\<close>

definition find_account ::
  "(string \<Rightarrow> string) \<Rightarrow> connection \<Rightarrow> string \<Rightarrow> exn + (int \<times> string \<times> bool) option" where
  "find_account sql_lower conn username_search =
     (if closed conn then Inl InterfaceError
      else Inr
        (case filter (\<lambda>r. sql_lower (col_username r) = sql_lower username_search)
                (pending conn) of
           [] \<Rightarrow> None
         | result # _ \<Rightarrow> Some (col_id result, col_username result, col_inactive result)))"

text \<open>
  What the driver can do to \<^verbatim>\<open>update_password\<close> on an open session: the \<^verbatim>\<open>UPDATE\<close>
  statement raises, leaving the open transaction in any state (for instance with one
  field written), or \<^verbatim>\<open>commit()\<close> raises, or neither. With either error the session
  may be lost (the flag of the fault), and then it counts as closed. A commit that
  raises has not committed.
\<close>

datatype fault = NoFault | ExecuteRaises "account list" bool | CommitRaises bool

datatype db_result = Raised connection | Done connection

definition sql_update_account :: "account list \<Rightarrow> unicode \<Rightarrow> unicode \<Rightarrow> int \<Rightarrow> account list" where
  "sql_update_account rows new_password new_passhash account_id =
     map (\<lambda>r. if col_id r = account_id
               then r\<lparr>col_password := new_password, col_passhash := new_passhash\<rparr>
               else r) rows"

text \<open>\<^verbatim>\<open>conn.cursor()\<close> raises on a closed session.\<close>

definition conn_cursor :: "connection \<Rightarrow> db_result" where
  "conn_cursor conn = (if closed conn then Raised conn else Done conn)"

text \<open>\<^verbatim>\<open>cur.execute\<close> of the \<^verbatim>\<open>UPDATE\<close>: the driver refuses a string parameter that
  holds the code point 0 before anything is sent.\<close>

definition cursor_execute :: "fault \<Rightarrow> connection \<Rightarrow> unicode \<Rightarrow> unicode \<Rightarrow> int \<Rightarrow> db_result" where
  "cursor_execute f conn new_password new_passhash account_id =
     (if 0 \<in> set new_password \<or> 0 \<in> set new_passhash then Raised conn
      else case f of
             ExecuteRaises rows lost \<Rightarrow> Raised (conn\<lparr>pending := rows, closed := lost\<rparr>)
           | _ \<Rightarrow> Done (conn\<lparr>pending :=
                      sql_update_account (pending conn) new_password new_passhash account_id\<rparr>))"

definition conn_commit :: "fault \<Rightarrow> connection \<Rightarrow> db_result" where
  "conn_commit f conn =
     (if closed conn then Raised conn
      else case f of
             CommitRaises lost \<Rightarrow> Raised (conn\<lparr>closed := lost\<rparr>)
           | _ \<Rightarrow> Done (conn\<lparr>committed := pending conn\<rparr>))"

text \<open>\<^verbatim>\<open>conn.rollback()\<close> raises \<^verbatim>\<open>InterfaceError\<close> on a closed session.\<close>

definition conn_rollback :: "connection \<Rightarrow> db_result" where
  "conn_rollback conn =
     (if closed conn then Raised conn else Done (conn\<lparr>pending := committed conn\<rparr>))"

text \<open>\<^verbatim>\<open>conn.close()\<close>: what was not committed is gone.\<close>

definition conn_close :: "connection \<Rightarrow> connection" where
  "conn_close conn = conn\<lparr>pending := committed conn, closed := True\<rparr>"

text \<open>
  The \<^verbatim>\<open>try\<close> block of \<^verbatim>\<open>update_password\<close>: the cursor is made, the arguments of
  \<^verbatim>\<open>execute\<close> are evaluated (the two \<^verbatim>\<open>decode\<close> calls), the statement runs, then
  \<^verbatim>\<open>commit\<close>. \<open>Raised\<close> is any exception of the block, with the session as it is then.
\<close>

definition update_password_try ::
  "fault \<Rightarrow> connection \<Rightarrow> int \<Rightarrow> bytes \<Rightarrow> bytes \<Rightarrow> db_result" where
  "update_password_try f conn account_id launcher_hash testclient_hash =
     (case conn_cursor conn of
        Raised conn0 \<Rightarrow> Raised conn0
      | Done conn0 \<Rightarrow>
     (case decode_utf8 launcher_hash of
        None \<Rightarrow> Raised conn0
      | Some new_password \<Rightarrow>
     (case decode_utf8 testclient_hash of
        None \<Rightarrow> Raised conn0
      | Some new_passhash \<Rightarrow>
     (case cursor_execute f conn0 new_password new_passhash account_id of
        Raised conn1 \<Rightarrow> Raised conn1
      | Done conn1 \<Rightarrow> conn_commit f conn1))))"

text \<open>
  \<^verbatim>\<open>update_password\<close>: \<^verbatim>\<open>True\<close> when the block ends; on an exception the handler calls
  \<^verbatim>\<open>conn.rollback()\<close> and returns \<^verbatim>\<open>False\<close>. The call of \<^verbatim>\<open>rollback()\<close> is not
  guarded, so what it raises leaves the function.
\<close>

definition update_password ::
  "fault \<Rightarrow> connection \<Rightarrow> int \<Rightarrow> bytes \<Rightarrow> bytes \<Rightarrow> (exn + bool) \<times> connection" where
  "update_password f conn account_id launcher_hash testclient_hash =
     (case update_password_try f conn account_id launcher_hash testclient_hash of
        Done conn1 \<Rightarrow> (Inr True, conn1)
      | Raised conn1 \<Rightarrow>
          (case conn_rollback conn1 of
             Done conn2 \<Rightarrow> (Inr False, conn2)
           | Raised conn2 \<Rightarrow> (Inl InterfaceError, conn2)))"

section \<open>Hash derivation\<close>

text \<open>
  \<^verbatim>\<open>hashlib\<close> and \<^verbatim>\<open>bcrypt\<close> are libraries: their functions are parameters.
  \<^verbatim>\<open>gensalt\<close> draws 16 bytes from \<^verbatim>\<open>os.urandom\<close>, passed here as its first argument.
  \<open>hash_with_salt\<close> is bcrypt's hashing proper, which can raise for reasons of its own.
\<close>

record crypto =
  sha256 :: "bytes \<Rightarrow> bytes"
  gensalt :: "bytes \<Rightarrow> nat \<Rightarrow> bytes \<Rightarrow> bytes"
  hash_with_salt :: "bytes \<Rightarrow> bytes \<Rightarrow> exn + bytes"

text \<open>\<^verbatim>\<open>bcrypt.hashpw\<close> (bcrypt 5.0.0): data of more than 72 bytes are refused with
  \<^verbatim>\<open>ValueError\<close>, before any hashing.\<close>

definition hashpw :: "crypto \<Rightarrow> bytes \<Rightarrow> bytes \<Rightarrow> exn + bytes" where
  "hashpw lib data salt =
     (if 72 < length data then Inl ValueError else hash_with_salt lib data salt)"

definition generate_launcher_hash ::
  "crypto \<Rightarrow> bytes \<Rightarrow> string \<Rightarrow> string \<Rightarrow> exn + bytes" where
  "generate_launcher_hash lib rnd username password =
     (let salted = encode_utf8 (username @ password);
          sha256_hash = hexdigest (sha256 lib salted);
          launcher_hash = hashpw lib (encode_utf8 sha256_hash)
                            (gensalt lib rnd 12 (bytes_literal ''2a''))
      in launcher_hash)"

definition generate_testclient_hash :: "crypto \<Rightarrow> bytes \<Rightarrow> string \<Rightarrow> exn + bytes" where
  "generate_testclient_hash lib rnd password =
     hashpw lib (encode_utf8 password) (gensalt lib rnd 12 (bytes_literal ''2a''))"

text \<open>
  The two derivations in the specification's words, to compare with the functions above:
  the hexadecimal encoding of a digest as ASCII bytes, digit by digit (\<open>0\<close> to \<open>9\<close>, then
  lowercase \<open>a\<close> to \<open>f\<close>); bcrypt with a work factor and a version marker; the launcher
  hash as bcrypt, work factor 12 and version \<open>2a\<close>, of the hex-encoded SHA-256 digest of
  the UTF-8 bytes of \<open>username + password\<close>.
\<close>

definition hex_digit :: "nat \<Rightarrow> 8 word" where
  "hex_digit n = (if n < 10 then of_nat (48 + n) else of_nat (97 + (n - 10)))"

definition hex_encode :: "bytes \<Rightarrow> bytes" where
  "hex_encode digest =
     concat (map (\<lambda>b. [hex_digit (unat (drop_bit 4 b)), hex_digit (unat (take_bit 4 b))]) digest)"

definition bcrypt :: "crypto \<Rightarrow> bytes \<Rightarrow> nat \<Rightarrow> string \<Rightarrow> bytes \<Rightarrow> exn + bytes" where
  "bcrypt lib rnd work_factor version data =
     hashpw lib data (gensalt lib rnd work_factor (bytes_literal version))"

definition deriveLauncherHash ::
  "crypto \<Rightarrow> bytes \<Rightarrow> string \<Rightarrow> string \<Rightarrow> exn + bytes" where
  "deriveLauncherHash lib rnd username password =
     bcrypt lib rnd 12 ''2a'' (hex_encode (sha256 lib (encode_utf8 (username @ password))))"

section \<open>Connecting\<close>

text \<open>
  \<^verbatim>\<open>psycopg2.connect\<close> is the driver: a parameter that maps the number of the attempt and
  the arguments of the call to a session, a \<^verbatim>\<open>psycopg2.OperationalError\<close> with its
  message, or another exception. What \<^verbatim>\<open>connect_database\<close> does on the terminal and
  towards the server is recorded in order as events.
\<close>

record conn_args =
  arg_host :: string
  arg_port :: int
  arg_user :: string
  arg_password :: string
  arg_database :: string
  arg_connect_timeout :: int

datatype connect_result = Connected connection | OperationalError string | OtherException string

datatype event = Connect conn_args | Print string | Prompt string

type_synonym 'a traced = "(exn + 'a) \<times> string list \<times> event list"

definition with_events :: "event list \<Rightarrow> 'a traced \<Rightarrow> 'a traced" where
  "with_events evs r = (case r of (x, ins, tr) \<Rightarrow> (x, ins, evs @ tr))"

function connect_database_loop ::
  "(nat \<Rightarrow> conn_args \<Rightarrow> connect_result) \<Rightarrow> string \<Rightarrow> int \<Rightarrow> string \<Rightarrow> nat \<Rightarrow>
   string \<Rightarrow> string \<Rightarrow> nat \<Rightarrow> string list \<Rightarrow> connection traced" where
  "connect_database_loop psycopg2_connect host port user max_attempts database password attempt ins =
     (if attempt < max_attempts then
        (let args = \<lparr>arg_host = host, arg_port = port, arg_user = user,
                      arg_password = password, arg_database = database,
                      arg_connect_timeout = 10\<rparr>
         in with_events [Connect args]
           (case psycopg2_connect attempt args of
              Connected conn \<Rightarrow> (Inr conn, ins, [])
            | OperationalError e \<Rightarrow>
                (let error_msg = py_lower e
                 in if py_in ''database'' error_msg \<and> py_in ''does not exist'' error_msg then
                      with_events
                        [Print (CHR 0x0A # ''Database '' @ [CHR 0x27] @ database @ [CHR 0x27]
                                @ '' not found on '' @ host @ '':'' @ str_int port),
                         Prompt ''Database name (or Ctrl+C to exit): '']
                        (case py_input ins of
                           (Inl x, rest) \<Rightarrow> (Inl x, rest, [])
                         | (Inr line, rest) \<Rightarrow>
                             (let database1 = py_strip line;
                                  database2 = (if database1 = [] then ''psforever'' else database1)
                              in connect_database_loop psycopg2_connect host port user max_attempts
                                   database2 password (attempt + 1) rest))
                    else if py_in ''authentication failed'' error_msg \<or> py_in ''password'' error_msg then
                      with_events
                        [Print (CHR 0x0A # ''Authentication failed for user '' @ [CHR 0x27] @ user
                                @ [CHR 0x27]),
                         Prompt (''Database password for user '' @ [CHR 0x27] @ user @ [CHR 0x27]
                                 @ '': '')]
                        (case getpass ins of
                           (Inl x, rest) \<Rightarrow> (Inl x, rest, [])
                         | (Inr password1, rest) \<Rightarrow>
                             connect_database_loop psycopg2_connect host port user max_attempts
                               database password1 (attempt + 1) rest)
                    else if py_in ''connection refused'' error_msg \<or> py_in ''could not connect'' error_msg then
                      (Inl (SystemExit 1), ins,
                       [Print (CHR 0x0A # ''ERROR: Cannot connect to PostgreSQL at '' @ host @ '':''
                               @ str_int port),
                        Print ''Possible causes:'',
                        Print ''  - PostgreSQL server is not running'',
                        Print ''  - Server is not accepting connections on this address'',
                        Print ''  - Firewall blocking connection'',
                        Print (CHR 0x0A # ''Check PostgreSQL status: sudo systemctl status postgresql'')])
                    else
                      with_events
                        (Print (CHR 0x0A # ''Database connection error: '' @ e)
                         # (if attempt + 1 < max_attempts
                            then [Print (''Retrying... (attempt '' @ str_int (int (attempt + 1 + 1))
                                         @ ''/'' @ str_int (int max_attempts) @ '')'')]
                            else []))
                        (connect_database_loop psycopg2_connect host port user max_attempts
                           database password (attempt + 1) ins))
            | OtherException e \<Rightarrow>
                (Inl (SystemExit 1), ins,
                 [Print (CHR 0x0A # ''Unexpected error connecting to database: '' @ e)])))
      else (Inl (SystemExit 1), ins,
            [Print (CHR 0x0A # ''Failed to connect after '' @ str_int (int max_attempts)
                    @ '' attempts.'')]))"
  by pat_completeness auto
termination
  by (relation "measure (\<lambda>(c, h, p, u, max_attempts, d, pw, attempt, ins). max_attempts - attempt)")
     auto

declare connect_database_loop.simps [simp del]

definition connect_database ::
  "(nat \<Rightarrow> conn_args \<Rightarrow> connect_result) \<Rightarrow> string \<Rightarrow> int \<Rightarrow> string \<Rightarrow> string \<Rightarrow>
   string option \<Rightarrow> string list \<Rightarrow> connection traced" where
  "connect_database psycopg2_connect host port user database password ins =
     (let max_attempts = 3;
          attempt = 0;
          password1 = (case password of None \<Rightarrow> user | Some p \<Rightarrow> p)
      in connect_database_loop psycopg2_connect host port user max_attempts database password1
           attempt ins)"

text \<open>
  The tests that \<^verbatim>\<open>connect_database\<close> makes on the message of an
  \<^verbatim>\<open>OperationalError\<close>, named, and the failures after which it tries again: a missing
  database, a failed authentication, or a message of none of the three kinds.
\<close>

definition database_missing :: "string \<Rightarrow> bool" where
  "database_missing e =
     (let error_msg = py_lower e
      in py_in ''database'' error_msg \<and> py_in ''does not exist'' error_msg)"

definition authentication_failed :: "string \<Rightarrow> bool" where
  "authentication_failed e =
     (let error_msg = py_lower e
      in py_in ''authentication failed'' error_msg \<or> py_in ''password'' error_msg)"

definition connection_refused :: "string \<Rightarrow> bool" where
  "connection_refused e =
     (let error_msg = py_lower e
      in py_in ''connection refused'' error_msg \<or> py_in ''could not connect'' error_msg)"

definition recoverable_failure :: "connect_result \<Rightarrow> bool" where
  "recoverable_failure r =
     (case r of
        OperationalError e \<Rightarrow>
          database_missing e \<or> authentication_failed e \<or> \<not> connection_refused e
      | Connected conn \<Rightarrow> False
      | OtherException e \<Rightarrow> False)"

text \<open>The connection attempts of a trace, in order.\<close>

fun connects :: "event list \<Rightarrow> conn_args list" where
  "connects [] = []"
| "connects (Connect args # tr) = args # connects tr"
| "connects (Print s # tr) = connects tr"
| "connects (Prompt s # tr) = connects tr"

section \<open>The controller\<close>

text \<open>
  What \<^verbatim>\<open>main\<close> runs in: the parsed command line, the driver, the server's
  \<^verbatim>\<open>LOWER\<close>, the fault the update meets, the libraries, the two draws of
  \<^verbatim>\<open>os.urandom\<close> and the time stamp that \<^verbatim>\<open>logging\<close> formats. The console output
  of \<^verbatim>\<open>main\<close> carries no property below and is left out; an interrupt from the
  keyboard is not an input and is left out as well.
\<close>

record env =
  opt_host :: string
  opt_port :: int
  opt_user :: string
  opt_db :: string
  psycopg2_connect :: "nat \<Rightarrow> conn_args \<Rightarrow> connect_result"
  sql_lower :: "string \<Rightarrow> string"
  update_fault :: fault
  lib :: crypto
  urandom :: "nat \<Rightarrow> bytes"
  asctime :: string

text \<open>Step 1 of \<^verbatim>\<open>main\<close>: ask for a username until an account is found or the
  operator declines to retry.\<close>

fun main_find_account :: "(string \<Rightarrow> string) \<Rightarrow> connection \<Rightarrow> (int \<times> string \<times> bool) io" where
  "main_find_account lower_fn conn [] = (Inl EOFError, [])"
| "main_find_account lower_fn conn (line # ins) =
     (let username_search = py_strip line
      in if username_search = [] then main_find_account lower_fn conn ins
         else (case find_account lower_fn conn username_search of
                 Inl x \<Rightarrow> (Inl x, ins)
               | Inr None \<Rightarrow>
                   (case ins of
                      [] \<Rightarrow> (Inl EOFError, [])
                    | line2 # ins2 \<Rightarrow>
                        (let retry = py_lower (py_strip line2)
                         in if retry \<noteq> [] \<and> hd retry = CHR ''n''
                            then (Inl (SystemExit 0), ins2)
                            else main_find_account lower_fn conn ins2))
               | Inr (Some account) \<Rightarrow> (Inr account, ins)))"

text \<open>Step 4 of \<^verbatim>\<open>main\<close>: the dry-run confirmation; \<^verbatim>\<open>confirm[0]\<close> is read only
  when \<^verbatim>\<open>confirm\<close> is not empty.\<close>

definition main_dry_run :: "bool \<Rightarrow> unit io" where
  "main_dry_run is_inactive ins =
     (case py_input ins of
        (Inl e, rest) \<Rightarrow> (Inl e, rest)
      | (Inr line, rest) \<Rightarrow>
          (let confirm = py_lower (py_strip line)
           in if is_inactive then
                (if confirm = [] \<or> hd confirm \<noteq> CHR ''y''
                 then (Inl (SystemExit 0), rest) else (Inr (), rest))
              else
                (if confirm \<noteq> [] \<and> hd confirm = CHR ''n''
                 then (Inl (SystemExit 0), rest) else (Inr (), rest))))"

text \<open>The record that \<^verbatim>\<open>audit_log.info\<close> hands to the file handler, formatted as
  \<^verbatim>\<open>%(asctime)s - %(message)s\<close>.\<close>

definition audit_record :: "string \<Rightarrow> int \<Rightarrow> string \<Rightarrow> string" where
  "audit_record stamp account_id exact_username =
     stamp @ '' - '' @ ''Password reset for account ID: '' @ str_int account_id
       @ '', username: '' @ exact_username"

text \<open>Steps 5 and 6 of \<^verbatim>\<open>main\<close>: derive both hashes, update the account, and write the
  audit record when the update succeeded. An exception of a hash function or of
  \<^verbatim>\<open>update_password\<close> leaves the \<^verbatim>\<open>try\<close> block.\<close>

definition main_persist ::
  "env \<Rightarrow> connection \<Rightarrow> string list \<Rightarrow> int \<Rightarrow> string \<Rightarrow> string \<Rightarrow>
   (exn + unit) \<times> connection \<times> string list" where
  "main_persist e conn log account_id exact_username password =
     (case generate_launcher_hash (lib e) (urandom e 0) exact_username password of
        Inl x \<Rightarrow> (Inl x, conn, log)
      | Inr launcher_hash \<Rightarrow>
     (case generate_testclient_hash (lib e) (urandom e 1) password of
        Inl x \<Rightarrow> (Inl x, conn, log)
      | Inr testclient_hash \<Rightarrow>
     (case update_password (update_fault e) conn account_id launcher_hash testclient_hash of
        (Inr True, conn1) \<Rightarrow>
          (Inr (), conn1, log @ [audit_record (asctime e) account_id exact_username])
      | (Inr False, conn1) \<Rightarrow> (Inl (SystemExit 1), conn1, log)
      | (Inl x, conn1) \<Rightarrow> (Inl x, conn1, log))))"

text \<open>The \<^verbatim>\<open>try\<close> block of \<^verbatim>\<open>main\<close>, steps 1 to 6, on an open session and the audit
  log so far.\<close>

definition main_try ::
  "env \<Rightarrow> connection \<Rightarrow> string list \<Rightarrow> string list \<Rightarrow> (exn + unit) \<times> connection \<times> string list" where
  "main_try e conn log ins =
     (case main_find_account (sql_lower e) conn ins of
        (Inl x, rest) \<Rightarrow> (Inl x, conn, log)
      | (Inr (account_id, exact_username, is_inactive), rest) \<Rightarrow>
     (case main_collect_password rest of
        (Inl x, rest2) \<Rightarrow> (Inl x, conn, log)
      | (Inr password, rest2) \<Rightarrow>
     (case main_dry_run is_inactive rest2 of
        (Inl x, rest3) \<Rightarrow> (Inl x, conn, log)
      | (Inr u, rest3) \<Rightarrow> main_persist e conn log account_id exact_username password)))"

text \<open>
  \<^verbatim>\<open>main\<close>: connect (any \<^verbatim>\<open>Exception\<close> there becomes \<^verbatim>\<open>sys.exit(1)\<close>), run the
  \<^verbatim>\<open>try\<close> block, close the session in \<^verbatim>\<open>finally\<close>. The result is how \<^verbatim>\<open>main\<close>
  ends, the session if one was opened, and the audit log.
\<close>

definition main ::
  "env \<Rightarrow> string list \<Rightarrow> string list \<Rightarrow> (exn + unit) \<times> connection option \<times> string list" where
  "main e log ins =
     (case connect_database (psycopg2_connect e) (opt_host e) (opt_port e) (opt_user e) (opt_db e)
             None ins of
        (Inl (SystemExit n), rest, tr) \<Rightarrow> (Inl (SystemExit n), None, log)
      | (Inl x, rest, tr) \<Rightarrow> (Inl (SystemExit 1), None, log)
      | (Inr conn, rest, tr) \<Rightarrow>
          (case main_try e conn log rest of
             (r, conn1, log1) \<Rightarrow> (r, Some (conn_close conn1), log1)))"

text \<open>The script's entry point: the exit code of the process. An exception other than
  \<^verbatim>\<open>SystemExit\<close> is reported and becomes exit code 1.\<close>

definition exit_code :: "exn + unit \<Rightarrow> int" where
  "exit_code r = (case r of Inr u \<Rightarrow> 0 | Inl (SystemExit n) \<Rightarrow> n | Inl x \<Rightarrow> 1)"

definition script :: "env \<Rightarrow> string list \<Rightarrow> string list \<Rightarrow> int \<times> connection option \<times> string list" where
  "script e log ins = (case main e log ins of (r, conn, log1) \<Rightarrow> (exit_code r, conn, log1))"

section \<open>A sample deployment\<close>

text \<open>
  Concrete data for running the definitions: two accounts, \<open>Alice\<close> inactive and \<open>Bob\<close>
  active, a server that accepts the first connection, and stand-ins for the library
  functions (not the real algorithms) whose results are ASCII.
\<close>

definition sample_table :: "account list" where
  "sample_table =
     [\<lparr>col_id = 1, col_username = ''Alice'', col_inactive = True,
       col_password = code_points ''$2a$12$oldL1'',
       col_passhash = code_points ''$2a$12$oldT1''\<rparr>,
      \<lparr>col_id = 2, col_username = ''Bob'', col_inactive = False,
       col_password = code_points ''$2a$12$oldL2'',
       col_passhash = code_points ''$2a$12$oldT2''\<rparr>]"

definition sample_conn :: connection where
  "sample_conn = \<lparr>committed = sample_table, pending = sample_table, closed = False\<rparr>"

definition sample_lib :: crypto where
  "sample_lib =
     \<lparr>sha256 = (\<lambda>data. take 2 data),
      gensalt = (\<lambda>rnd rounds prefix.
        bytes_literal ''$'' @ prefix @ bytes_literal ''$'' @ bytes_literal (str_int (int rounds))
          @ bytes_literal ''$'' @ rnd),
      hash_with_salt = (\<lambda>data salt. Inr (salt @ rev (take 3 data)))\<rparr>"

definition sample_env :: "fault \<Rightarrow> env" where
  "sample_env f =
     \<lparr>opt_host = ''localhost'', opt_port = 5432, opt_user = ''psforever'', opt_db = ''psforever'',
      psycopg2_connect = (\<lambda>attempt args. Connected sample_conn),
      sql_lower = py_lower,
      update_fault = f,
      lib = sample_lib,
      urandom = (\<lambda>k. if k = 0 then bytes_literal ''saltL'' else bytes_literal ''saltT''),
      asctime = ''2024-05-01 12:00:00''\<rparr>"

text \<open>A server that refuses three times: the database is missing, then the
  authentication fails, then an error of no known kind.\<close>

definition sample_failing_server :: "nat \<Rightarrow> conn_args \<Rightarrow> connect_result" where
  "sample_failing_server attempt args =
     OperationalError
       (if attempt = 0 then ''FATAL:  database psf does not exist''
        else if attempt = 1 then ''FATAL:  password authentication failed for user psforever''
        else ''server closed the connection unexpectedly'')"

declare main_collect_password.simps [simp del]

section \<open>Password entry: properties\<close>

lemma get_password_input_skip:
  "\<forall>p \<in> set shorts. int (length p) < m \<Longrightarrow>
   get_password_input m (shorts @ ins) = get_password_input m ins"
  by (induction shorts) auto

lemma get_password_input_all_short:
  "\<forall>p \<in> set ins. int (length p) < m \<Longrightarrow> get_password_input m ins = (Inl EOFError, [])"
  by (induction ins) auto

text \<open>
  C7. With the minimum length 6 that \<^verbatim>\<open>main\<close> passes, \<^verbatim>\<open>get_password_input\<close> skips
  every entry shorter than 6 characters, however many there are, and returns the first
  entry of 6 characters or more, leaving the input after it untouched; while only short
  entries come it keeps asking until the input ends. An entry of 5 characters is skipped
  and an entry of 6 characters is returned.
\<close>

theorem get_password_input_first_long_enough:
  "((\<forall>p \<in> set shorts. length p < 6) \<and> 6 \<le> length password \<longrightarrow>
      get_password_input 6 (shorts @ password # rest) = (Inr password, rest))
   \<and> ((\<forall>p \<in> set ins. length p < 6) \<longrightarrow> get_password_input 6 ins = (Inl EOFError, []))
   \<and> (length p5 = 5 \<longrightarrow> get_password_input 6 (p5 # ins) = get_password_input 6 ins)
   \<and> (length p6 = 6 \<longrightarrow> get_password_input 6 (p6 # ins) = (Inr p6, ins))"
  by (simp add: get_password_input_skip get_password_input_all_short)

theorem get_password_input_first_long_enough_witness:
  "length ''abc'' < 6 \<and> length ''12345'' < 6 \<and> 6 \<le> length ''123456''
   \<and> get_password_input 6 ([''abc'', ''12345''] @ ''123456'' # [''later''])
       = (Inr ''123456'', [''later''])
   \<and> length ''a'' < 6 \<and> length ''bb'' < 6
   \<and> get_password_input 6 [''a'', ''bb''] = (Inl EOFError, [])
   \<and> length ''12345'' = 5
   \<and> get_password_input 6 (''12345'' # [''a'', ''bb'']) = get_password_input 6 [''a'', ''bb'']
   \<and> length ''123456'' = 6
   \<and> get_password_input 6 (''123456'' # [''a'', ''bb'']) = (Inr ''123456'', [''a'', ''bb''])"
  using get_password_input_first_long_enough
    [where shorts = "[''abc'', ''12345'']" and password = "''123456''" and rest = "[''later'']"
       and ins = "[''a'', ''bb'']" and ?p5.0 = "''12345''" and ?p6.0 = "''123456''"]
  by simp

lemma upt_3: "[0..<3] = [0, 1, 2]"
  by (simp add: upt_rec)

lemma confirm_password_loop_consumes:
  "length (snd (confirm_password_loop original attempts ins)) \<le> length ins
   \<and> length ins \<le> length (snd (confirm_password_loop original attempts ins)) + length attempts"
proof (induction attempts arbitrary: ins)
  case Nil
  show ?case by simp
next
  case (Cons a attempts)
  show ?case
  proof (cases ins)
    case Nil
    then show ?thesis by (simp add: getpass_def)
  next
    case (Cons c rest)
    with Cons.IH [of rest] show ?thesis by (auto simp: getpass_def)
  qed
qed

text \<open>
  C6. \<^verbatim>\<open>confirm_password\<close> with 3 attempts returns the password as soon as a typed
  confirmation equals it, at the first, second or third attempt; after three
  mismatches it returns \<^verbatim>\<open>None\<close>; it never reads more than 3 entries. In the
  controller a candidate confirmed at the first or at the second attempt is the
  password collected; on \<^verbatim>\<open>None\<close> the controller drops the candidate and collects a
  password again from the input that follows, so that the next entry of 6 characters
  or more, once confirmed, is the password collected, whatever the dropped candidate
  was.
\<close>

theorem confirm_password_three_attempts:
  "confirm_password original 3 (original # rest) = (Inr (Some original), rest)
   \<and> (c1 \<noteq> original \<longrightarrow>
        confirm_password original 3 (c1 # original # rest) = (Inr (Some original), rest))
   \<and> (c1 \<noteq> original \<and> c2 \<noteq> original \<longrightarrow>
        confirm_password original 3 (c1 # c2 # original # rest) = (Inr (Some original), rest))
   \<and> (c1 \<noteq> original \<and> c2 \<noteq> original \<and> c3 \<noteq> original \<longrightarrow>
        confirm_password original 3 (c1 # c2 # c3 # rest) = (Inr None, rest))
   \<and> length ins \<le> length (snd (confirm_password original 3 ins)) + 3
   \<and> (6 \<le> length original \<and> c1 \<noteq> original \<and> c2 \<noteq> original \<and> c3 \<noteq> original \<longrightarrow>
        main_collect_password (original # c1 # c2 # c3 # rest) = main_collect_password rest)
   \<and> (6 \<le> length original \<longrightarrow>
        main_collect_password (original # original # rest) = (Inr original, rest))
   \<and> (6 \<le> length original \<and> c1 \<noteq> original \<longrightarrow>
        main_collect_password (original # c1 # original # rest) = (Inr original, rest))
   \<and> (6 \<le> length original \<and> c1 \<noteq> original \<and> c2 \<noteq> original \<and> c3 \<noteq> original
        \<and> 6 \<le> length next_password \<longrightarrow>
        main_collect_password (original # c1 # c2 # c3 # next_password # next_password # rest)
          = (Inr next_password, rest))"
proof -
  have consumed: "length ins \<le> length (snd (confirm_password original 3 ins)) + 3"
    using confirm_password_loop_consumes [of original "[0..<3]" ins]
    by (simp add: confirm_password_def)
  have again: "main_collect_password (original # c1 # c2 # c3 # r) = main_collect_password r"
    if "6 \<le> length original" "c1 \<noteq> original" "c2 \<noteq> original" "c3 \<noteq> original" for r
    using that
    by (subst main_collect_password.simps) (simp add: confirm_password_def upt_3 getpass_def)
  have first: "main_collect_password (p # p # r) = (Inr p, r)" if "6 \<le> length p" for p r
    using that
    by (subst main_collect_password.simps) (simp add: confirm_password_def upt_3 getpass_def)
  have second: "main_collect_password (original # c1 # original # rest) = (Inr original, rest)"
    if "6 \<le> length original" "c1 \<noteq> original"
    using that
    by (subst main_collect_password.simps) (simp add: confirm_password_def upt_3 getpass_def)
  have dropped:
    "main_collect_password (original # c1 # c2 # c3 # next_password # next_password # rest)
       = (Inr next_password, rest)"
    if "6 \<le> length original" "c1 \<noteq> original" "c2 \<noteq> original" "c3 \<noteq> original"
      "6 \<le> length next_password"
    using that again [of "next_password # next_password # rest"] first [of next_password rest]
    by simp
  from consumed again [of rest] first [of original rest] second dropped show ?thesis
    by (simp add: confirm_password_def upt_3 getpass_def)
qed

theorem confirm_password_three_attempts_witness:
  "''secreT1'' \<noteq> ''secret1'' \<and> ''secre1'' \<noteq> ''secret1'' \<and> ''s'' \<noteq> ''secret1''
   \<and> 6 \<le> length ''secret1'' \<and> 6 \<le> length ''hunter22''
   \<and> confirm_password ''secret1'' 3 [''secreT1'', ''secret1'', ''tail'']
       = (Inr (Some ''secret1''), [''tail''])
   \<and> confirm_password ''secret1'' 3 [''secreT1'', ''secre1'', ''secret1'', ''tail'']
       = (Inr (Some ''secret1''), [''tail''])
   \<and> confirm_password ''secret1'' 3 [''secreT1'', ''secre1'', ''s'', ''tail'']
       = (Inr None, [''tail''])
   \<and> main_collect_password [''secret1'', ''secreT1'', ''secret1'', ''tail'']
       = (Inr ''secret1'', [''tail''])
   \<and> main_collect_password
         [''secret1'', ''secreT1'', ''secre1'', ''s'', ''hunter22'', ''hunter22'', ''tail'']
       = (Inr ''hunter22'', [''tail''])"
  using confirm_password_three_attempts
    [where original = "''secret1''" and ?c1.0 = "''secreT1''" and ?c2.0 = "''secre1''"
       and ?c3.0 = "''s''" and rest = "[''tail'']" and next_password = "''hunter22''"]
  by simp

section \<open>The account store: properties\<close>

lemma sql_update_account_rows:
  assumes r: "r \<in> set (sql_update_account rows new_password new_passhash account_id)"
    and i: "col_id r = account_id"
  shows "col_password r = new_password \<and> col_passhash r = new_passhash"
proof -
  from r have "r \<in> (\<lambda>x. if col_id x = account_id
                  then x\<lparr>col_password := new_password, col_passhash := new_passhash\<rparr> else x) ` set rows"
    by (simp add: sql_update_account_def)
  then obtain x where rx: "r = (if col_id x = account_id
                  then x\<lparr>col_password := new_password, col_passhash := new_passhash\<rparr> else x)"
    by (rule imageE)
  show ?thesis
  proof (cases "col_id x = account_id")
    case True
    with rx show ?thesis by simp
  next
    case False
    with rx i show ?thesis by simp
  qed
qed

lemma update_password_closed:
  "closed conn \<Longrightarrow>
   update_password f conn account_id launcher_hash testclient_hash = (Inl InterfaceError, conn)"
  by (simp add: update_password_def update_password_try_def conn_cursor_def conn_rollback_def)

lemma update_password_undecodable:
  "\<not> closed conn \<Longrightarrow>
   decode_utf8 launcher_hash = None \<or> decode_utf8 testclient_hash = None \<Longrightarrow>
   update_password f conn account_id launcher_hash testclient_hash
     = (Inr False, conn\<lparr>pending := committed conn\<rparr>)"
  by (cases "decode_utf8 launcher_hash")
     (auto simp: update_password_def update_password_try_def conn_cursor_def conn_rollback_def)

lemma update_password_nul:
  "\<not> closed conn \<Longrightarrow>
   decode_utf8 launcher_hash = Some new_password \<Longrightarrow>
   decode_utf8 testclient_hash = Some new_passhash \<Longrightarrow>
   0 \<in> set new_password \<or> 0 \<in> set new_passhash \<Longrightarrow>
   update_password f conn account_id launcher_hash testclient_hash
     = (Inr False, conn\<lparr>pending := committed conn\<rparr>)"
  by (simp add: update_password_def update_password_try_def conn_cursor_def conn_rollback_def
        cursor_execute_def)

lemma update_password_execute_raises:
  "\<not> closed conn \<Longrightarrow>
   decode_utf8 launcher_hash = Some new_password \<Longrightarrow>
   decode_utf8 testclient_hash = Some new_passhash \<Longrightarrow>
   0 \<notin> set new_password \<Longrightarrow> 0 \<notin> set new_passhash \<Longrightarrow>
   update_password (ExecuteRaises rows lost) conn account_id launcher_hash testclient_hash
     = (if lost then (Inl InterfaceError, conn\<lparr>pending := rows, closed := True\<rparr>)
        else (Inr False, conn\<lparr>pending := committed conn\<rparr>))"
  by (cases conn)
     (simp add: update_password_def update_password_try_def conn_cursor_def conn_rollback_def
        cursor_execute_def)

lemma update_password_commit_raises:
  "\<not> closed conn \<Longrightarrow>
   decode_utf8 launcher_hash = Some new_password \<Longrightarrow>
   decode_utf8 testclient_hash = Some new_passhash \<Longrightarrow>
   0 \<notin> set new_password \<Longrightarrow> 0 \<notin> set new_passhash \<Longrightarrow>
   update_password (CommitRaises lost) conn account_id launcher_hash testclient_hash
     = (if lost
        then (Inl InterfaceError,
              conn\<lparr>pending := sql_update_account (pending conn) new_password new_passhash
                                 account_id,
                   closed := True\<rparr>)
        else (Inr False, conn\<lparr>pending := committed conn\<rparr>))"
  by (cases conn)
     (simp add: update_password_def update_password_try_def conn_cursor_def conn_rollback_def
        cursor_execute_def conn_commit_def)

lemma update_password_no_fault:
  "\<not> closed conn \<Longrightarrow>
   decode_utf8 launcher_hash = Some new_password \<Longrightarrow>
   decode_utf8 testclient_hash = Some new_passhash \<Longrightarrow>
   0 \<notin> set new_password \<Longrightarrow> 0 \<notin> set new_passhash \<Longrightarrow>
   update_password NoFault conn account_id launcher_hash testclient_hash
     = (Inr True,
        conn\<lparr>pending := sql_update_account (pending conn) new_password new_passhash account_id,
             committed := sql_update_account (pending conn) new_password new_passhash
                            account_id\<rparr>)"
  by (cases conn)
     (simp add: update_password_def update_password_try_def conn_cursor_def
        cursor_execute_def conn_commit_def)

lemma update_password_characterised:
  assumes run: "update_password f conn account_id launcher_hash testclient_hash = (r, conn1)"
  shows
    "(r = Inr True \<longrightarrow>
        (\<exists>new_password new_passhash.
           decode_utf8 launcher_hash = Some new_password
           \<and> decode_utf8 testclient_hash = Some new_passhash
           \<and> committed conn1 = sql_update_account (pending conn) new_password new_passhash account_id
           \<and> pending conn1 = committed conn1
           \<and> (\<forall>row \<in> set (committed conn1).
                 col_id row = account_id \<longrightarrow>
                 col_password row = new_password \<and> col_passhash row = new_passhash)))
     \<and> (r \<noteq> Inr True \<longrightarrow> committed conn1 = committed conn)
     \<and> (r = Inr False \<longrightarrow> pending conn1 = committed conn \<and> \<not> closed conn1)
     \<and> (r = Inr True \<or> r = Inr False \<or> r = Inl InterfaceError)
     \<and> (r = Inl InterfaceError \<longrightarrow> closed conn1)
     \<and> (closed conn \<longrightarrow> r = Inl InterfaceError)
     \<and> (\<not> closed conn
         \<and> decode_utf8 launcher_hash = Some new_password
         \<and> decode_utf8 testclient_hash = Some new_passhash
         \<and> 0 \<notin> set new_password \<and> 0 \<notin> set new_passhash
         \<and> (f = ExecuteRaises rows True \<or> f = CommitRaises True) \<longrightarrow>
         r = Inl InterfaceError)"
proof (cases "closed conn")
  case True
  from update_password_closed [OF True, of f account_id launcher_hash testclient_hash] run
  have "r = Inl InterfaceError" "conn1 = conn" by simp_all
  with True show ?thesis by simp
next
  case opened: False
  show ?thesis
  proof (cases "decode_utf8 launcher_hash = None \<or> decode_utf8 testclient_hash = None")
    case True
    from update_password_undecodable [OF opened True, of f account_id] run
    have "r = Inr False" "conn1 = conn\<lparr>pending := committed conn\<rparr>" by simp_all
    with opened True show ?thesis by auto
  next
    case False
    then obtain pw ph where
      pw: "decode_utf8 launcher_hash = Some pw" and ph: "decode_utf8 testclient_hash = Some ph"
      by auto
    show ?thesis
    proof (cases "0 \<in> set pw \<or> 0 \<in> set ph")
      case True
      from update_password_nul [OF opened pw ph True, of f account_id] run
      have "r = Inr False" "conn1 = conn\<lparr>pending := committed conn\<rparr>" by simp_all
      with opened pw ph True show ?thesis by auto
    next
      case False
      then have z: "0 \<notin> set pw" "0 \<notin> set ph" by simp_all
      show ?thesis
      proof (cases f)
        case NoFault
        from update_password_no_fault [OF opened pw ph z, of account_id] run NoFault
        have r: "r = Inr True"
          and c: "conn1 = conn\<lparr>pending := sql_update_account (pending conn) pw ph account_id,
                        committed := sql_update_account (pending conn) pw ph account_id\<rparr>"
          by simp_all
        from c have "\<forall>row \<in> set (committed conn1).
                 col_id row = account_id \<longrightarrow> col_password row = pw \<and> col_passhash row = ph"
          by (simp add: sql_update_account_rows)
        with r c opened pw ph NoFault show ?thesis by simp
      next
        case (ExecuteRaises rows' lost)
        show ?thesis
        proof (cases lost)
          case True
          with update_password_execute_raises [OF opened pw ph z, of rows' lost account_id] run
            ExecuteRaises
          have "r = Inl InterfaceError" "conn1 = conn\<lparr>pending := rows', closed := True\<rparr>"
            by simp_all
          with opened pw ph show ?thesis by simp
        next
          case False
          with update_password_execute_raises [OF opened pw ph z, of rows' lost account_id] run
            ExecuteRaises
          have "r = Inr False" "conn1 = conn\<lparr>pending := committed conn\<rparr>" by simp_all
          with opened pw ph ExecuteRaises False show ?thesis by simp
        qed
      next
        case (CommitRaises lost)
        show ?thesis
        proof (cases lost)
          case True
          with update_password_commit_raises [OF opened pw ph z, of lost account_id] run
            CommitRaises
          have "r = Inl InterfaceError"
            "conn1 = conn\<lparr>pending := sql_update_account (pending conn) pw ph account_id,
                          closed := True\<rparr>"
            by simp_all
          with opened pw ph show ?thesis by simp
        next
          case False
          with update_password_commit_raises [OF opened pw ph z, of lost account_id] run
            CommitRaises
          have "r = Inr False" "conn1 = conn\<lparr>pending := committed conn\<rparr>" by simp_all
          with opened pw ph CommitRaises False show ?thesis by simp
        qed
      qed
    qed
  qed
qed







section \<open>The controller: properties\<close>

lemma main_find_account_row:
  "main_find_account lw conn ins = (Inr (account_id, exact_username, is_inactive), rest) \<Longrightarrow>
   \<exists>r \<in> set (pending conn).
     account_id = col_id r \<and> exact_username = col_username r \<and> is_inactive = col_inactive r"
proof (induction lw conn ins rule: main_find_account.induct)
  case (1 lw conn)
  then show ?case by simp
next
  case (2 lw conn line ins)
  show ?case
  proof (cases "py_strip line = []")
    case True
    with 2 show ?thesis by simp
  next
    case False
    show ?thesis
    proof (cases "find_account lw conn (py_strip line)")
      case (Inl x)
      with "2.prems" False show ?thesis by simp
    next
      case (Inr answer)
      show ?thesis
      proof (cases answer)
        case None
        with Inr have none: "find_account lw conn (py_strip line) = Inr None" by simp
        show ?thesis
        proof (cases ins)
          case Nil
          with "2.prems" False none show ?thesis by simp
        next
          case (Cons line2 ins2)
          show ?thesis
          proof (cases "py_lower (py_strip line2) \<noteq> [] \<and> hd (py_lower (py_strip line2)) = CHR ''n''")
            case True
            with "2.prems" False none Cons show ?thesis by simp
          next
            case no: False
            with "2.prems" False none Cons
            have "main_find_account lw conn ins2
                    = (Inr (account_id, exact_username, is_inactive), rest)"
              by (simp add: Let_def)
            with "2.IH"(2) [OF refl False none refl Cons refl no] show ?thesis by simp
          qed
        qed
      next
        case (Some account)
        with Inr have some: "find_account lw conn (py_strip line) = Inr (Some account)" by simp
        with "2.prems" False have acc: "account = (account_id, exact_username, is_inactive)"
          by simp
        from some have opened: "\<not> closed conn"
          by (cases "closed conn") (simp_all add: find_account_def)
        with some obtain r rs where
          f: "filter (\<lambda>r. lw (col_username r) = lw (py_strip line)) (pending conn) = r # rs"
          and a: "account = (col_id r, col_username r, col_inactive r)"
          by (cases "filter (\<lambda>r. lw (col_username r) = lw (py_strip line)) (pending conn)")
             (simp_all add: find_account_def)
        from f have "r \<in> set (filter (\<lambda>r. lw (col_username r) = lw (py_strip line)) (pending conn))"
          by simp
        then have "r \<in> set (pending conn)" by simp
        with acc a show ?thesis by (intro bexI [of _ r]) simp_all
      qed
    qed
  qed
qed

lemma main_try_cases:
  obtains (stopped) x where "main_try e conn log ins = (Inl x, conn, log)"
  | (persist) account_id exact_username is_inactive rest password rest2 rest3 where
      "main_find_account (sql_lower e) conn ins = (Inr (account_id, exact_username, is_inactive), rest)"
      "main_collect_password rest = (Inr password, rest2)"
      "main_dry_run is_inactive rest2 = (Inr (), rest3)"
      "main_try e conn log ins = main_persist e conn log account_id exact_username password"
proof (cases "main_find_account (sql_lower e) conn ins")
  case f: (Pair r1 rest)
  show thesis
  proof (cases r1)
    case (Inl x)
    with f have "main_try e conn log ins = (Inl x, conn, log)" by (simp add: main_try_def)
    then show thesis by (rule stopped)
  next
    case (Inr account)
    obtain account_id exact_username is_inactive
      where account: "account = (account_id, exact_username, is_inactive)"
      by (cases account)
    show thesis
    proof (cases "main_collect_password rest")
      case c: (Pair r2 rest2)
      show thesis
      proof (cases r2)
        case (Inl x)
        with f Inr account c have "main_try e conn log ins = (Inl x, conn, log)"
          by (simp add: main_try_def)
        then show thesis by (rule stopped)
      next
        case p: (Inr password)
        show thesis
        proof (cases "main_dry_run is_inactive rest2")
          case d: (Pair r3 rest3)
          show thesis
          proof (cases r3)
            case (Inl x)
            with f Inr account c p d have "main_try e conn log ins = (Inl x, conn, log)"
              by (simp add: main_try_def)
            then show thesis by (rule stopped)
          next
            case u: (Inr u)
            with f Inr account c p d
            have "main_try e conn log ins = main_persist e conn log account_id exact_username password"
              by (simp add: main_try_def)
            moreover from f Inr account
            have "main_find_account (sql_lower e) conn ins
                    = (Inr (account_id, exact_username, is_inactive), rest)" by simp
            moreover from c p have "main_collect_password rest = (Inr password, rest2)" by simp
            moreover from d u have "main_dry_run is_inactive rest2 = (Inr (), rest3)" by simp
            ultimately show thesis by (rule persist [rotated 3])
          qed
        qed
      qed
    qed
  qed
qed

lemma main_persist_cases:
  obtains (updated) launcher_hash testclient_hash conn1 where
      "generate_launcher_hash (lib e) (urandom e 0) exact_username password = Inr launcher_hash"
      "generate_testclient_hash (lib e) (urandom e 1) password = Inr testclient_hash"
      "update_password (update_fault e) conn account_id launcher_hash testclient_hash
         = (Inr True, conn1)"
      "main_persist e conn log account_id exact_username password
         = (Inr (), conn1, log @ [audit_record (asctime e) account_id exact_username])"
  | (failed) x conn1 where
      "main_persist e conn log account_id exact_username password = (Inl x, conn1, log)"
      "committed conn1 = committed conn"
proof (cases "generate_launcher_hash (lib e) (urandom e 0) exact_username password")
  case (Inl x)
  then have "main_persist e conn log account_id exact_username password = (Inl x, conn, log)"
    by (simp add: main_persist_def)
  then show thesis by (rule failed) simp
next
  case l: (Inr launcher_hash)
  show thesis
  proof (cases "generate_testclient_hash (lib e) (urandom e 1) password")
    case (Inl x)
    with l have "main_persist e conn log account_id exact_username password = (Inl x, conn, log)"
      by (simp add: main_persist_def)
    then show thesis by (rule failed) simp
  next
    case t: (Inr testclient_hash)
    show thesis
    proof (cases "update_password (update_fault e) conn account_id launcher_hash testclient_hash")
      case (Pair r conn1)
      show thesis
      proof (cases "r = Inr True")
        case True
        with Pair have u: "update_password (update_fault e) conn account_id launcher_hash
                             testclient_hash = (Inr True, conn1)" by simp
        with l t have "main_persist e conn log account_id exact_username password
           = (Inr (), conn1, log @ [audit_record (asctime e) account_id exact_username])"
          by (simp add: main_persist_def)
        with l t u show thesis by (rule updated)
      next
        case False
        with update_password_characterised [OF Pair]
        have kept: "committed conn1 = committed conn" by simp
        show thesis
        proof (cases r)
          case (Inl x)
          with Pair l t have "main_persist e conn log account_id exact_username password
             = (Inl x, conn1, log)"
            by (simp add: main_persist_def)
          then show thesis using kept by (rule failed)
        next
          case (Inr ok)
          with False have "r = Inr False" by simp
          with Pair l t have "main_persist e conn log account_id exact_username password
             = (Inl (SystemExit 1), conn1, log)"
            by (simp add: main_persist_def)
          then show thesis using kept by (rule failed)
        qed
      qed
    qed
  qed
qed

lemma main_connected:
  "connect_database (psycopg2_connect e) (opt_host e) (opt_port e) (opt_user e) (opt_db e) None ins
     = (Inr conn, rest0, tr) \<Longrightarrow>
   main_try e conn log rest0 = (r, conn1, log1) \<Longrightarrow>
   script e log ins = (exit_code r, Some (conn_close conn1), log1)"
  by (simp add: script_def main_def)

text \<open>
  C8, as the claim states it, fails: the answer is compared after \<^verbatim>\<open>strip().lower()\<close>.
  For the inactive account \<open>Alice\<close> the answer \<open>Y\<close>, which does not start with \<open>y\<close>,
  goes on to the reset and both hashes are written; for the active account \<open>Bob\<close> the
  answer \<open>N\<close>, which does not start with \<open>n\<close>, aborts and nothing is written.
\<close>

theorem dry_run_raw_answer_counterexample:
  "hd ''Y'' \<noteq> CHR ''y'' \<and> main_dry_run True [''Y''] = (Inr (), [])
   \<and> script (sample_env NoFault) [] [''alice'', ''secret1'', ''secret1'', ''Y'']
       = (0,
          Some \<lparr>committed =
                  [\<lparr>col_id = 1, col_username = ''Alice'', col_inactive = True,
                    col_password = code_points ''$2a$12$saltL614'', col_passhash = code_points ''$2a$12$saltTces''\<rparr>,
                   \<lparr>col_id = 2, col_username = ''Bob'', col_inactive = False,
                    col_password = code_points ''$2a$12$oldL2'', col_passhash = code_points ''$2a$12$oldT2''\<rparr>],
                pending =
                  [\<lparr>col_id = 1, col_username = ''Alice'', col_inactive = True,
                    col_password = code_points ''$2a$12$saltL614'', col_passhash = code_points ''$2a$12$saltTces''\<rparr>,
                   \<lparr>col_id = 2, col_username = ''Bob'', col_inactive = False,
                    col_password = code_points ''$2a$12$oldL2'', col_passhash = code_points ''$2a$12$oldT2''\<rparr>],
                closed = True\<rparr>,
          [''2024-05-01 12:00:00 - Password reset for account ID: 1, username: Alice''])
   \<and> hd ''N'' \<noteq> CHR ''n'' \<and> main_dry_run False [''N''] = (Inl (SystemExit 0), [])
   \<and> script (sample_env NoFault) [] [''Bob'', ''secret1'', ''secret1'', ''N'']
       = (0, Some (conn_close sample_conn), [])"
  by code_simp

text \<open>
  C8, amended. Let \<open>confirm\<close> be the answer at the dry-run confirmation with surrounding
  whitespace removed and lowercased. For an inactive account, an empty \<open>confirm\<close> (plain
  Enter included) or one not starting with \<open>y\<close> ends the run with exit code 0, the
  session closed with the table as it was and the audit log as it was; for an active
  account only a \<open>confirm\<close> starting with \<open>n\<close> does so. In the other cases, an empty
  answer for an active account among them, the run goes on to the reset.
\<close>

theorem dry_run_default_by_status:
  assumes connected:
      "connect_database (psycopg2_connect e) (opt_host e) (opt_port e) (opt_user e) (opt_db e)
         None ins = (Inr conn, rest0, tr)"
    and found:
      "main_find_account (sql_lower e) conn rest0
         = (Inr (account_id, exact_username, is_inactive), rest1)"
    and collected: "main_collect_password rest1 = (Inr password, line # rest3)"
    and confirm: "confirm = py_lower (py_strip line)"
  shows
    "(is_inactive \<and> (confirm = [] \<or> hd confirm \<noteq> CHR ''y'') \<longrightarrow>
        script e log ins = (0, Some (conn_close conn), log))
     \<and> (\<not> is_inactive \<and> confirm \<noteq> [] \<and> hd confirm = CHR ''n'' \<longrightarrow>
        script e log ins = (0, Some (conn_close conn), log))
     \<and> (is_inactive \<and> confirm \<noteq> [] \<and> hd confirm = CHR ''y''
         \<or> \<not> is_inactive \<and> (confirm = [] \<or> hd confirm \<noteq> CHR ''n'') \<longrightarrow>
        main_try e conn log rest0 = main_persist e conn log account_id exact_username password)
     \<and> (line = [] \<longrightarrow> confirm = [])
     \<and> committed (conn_close conn) = committed conn"
proof -
  have abort: "script e log ins = (0, Some (conn_close conn), log)"
    if "main_dry_run is_inactive (line # rest3) = (Inl (SystemExit 0), rest3)"
  proof -
    from found collected that have "main_try e conn log rest0 = (Inl (SystemExit 0), conn, log)"
      by (simp add: main_try_def)
    from main_connected [OF connected this] show ?thesis by (simp add: exit_code_def)
  qed
  have go: "main_try e conn log rest0 = main_persist e conn log account_id exact_username password"
    if "main_dry_run is_inactive (line # rest3) = (Inr (), rest3)"
    using found collected that by (simp add: main_try_def)
  have dry: "main_dry_run is_inactive (line # rest3) =
      (if is_inactive then
         (if confirm = [] \<or> hd confirm \<noteq> CHR ''y'' then (Inl (SystemExit 0), rest3) else (Inr (), rest3))
       else
         (if confirm \<noteq> [] \<and> hd confirm = CHR ''n'' then (Inl (SystemExit 0), rest3) else (Inr (), rest3)))"
    by (simp add: main_dry_run_def py_input_def confirm Let_def)
  have empty: "line = [] \<longrightarrow> confirm = []"
    by (simp add: confirm py_strip_def py_lower_def)
  have kept: "committed (conn_close conn) = committed conn"
    by (simp add: conn_close_def)
  from abort go dry empty kept show ?thesis
    by (cases is_inactive) (simp_all split: if_splits)
qed

theorem dry_run_default_by_status_witness:
  "connect_database (psycopg2_connect (sample_env NoFault)) (opt_host (sample_env NoFault))
      (opt_port (sample_env NoFault)) (opt_user (sample_env NoFault)) (opt_db (sample_env NoFault))
      None [''alice'', ''secret1'', ''secret1'', '''']
     = (Inr sample_conn, [''alice'', ''secret1'', ''secret1'', ''''],
        [Connect \<lparr>arg_host = ''localhost'', arg_port = 5432, arg_user = ''psforever'',
                  arg_password = ''psforever'', arg_database = ''psforever'',
                  arg_connect_timeout = 10\<rparr>])
   \<and> main_find_account (sql_lower (sample_env NoFault)) sample_conn
        [''alice'', ''secret1'', ''secret1'', '''']
       = (Inr (1, ''Alice'', True), [''secret1'', ''secret1'', ''''])
   \<and> main_collect_password [''secret1'', ''secret1'', ''''] = (Inr ''secret1'', [''''])
   \<and> '''' = py_lower (py_strip '''')
   \<and> script (sample_env NoFault) [] [''alice'', ''secret1'', ''secret1'', '''']
       = (0, Some (conn_close sample_conn), [])
   \<and> committed (conn_close sample_conn) = committed sample_conn"
  (is "?connected \<and> ?found \<and> ?collected \<and> ?confirm \<and> ?aborted \<and> ?kept")
proof -
  have h: ?connected ?found ?collected ?confirm by code_simp+
  from dry_run_default_by_status [OF h, of "[]"] have ?aborted ?kept by simp_all
  with h show ?thesis by blast
qed

lemma main_not_connected:
  "connect_database (psycopg2_connect e) (opt_host e) (opt_port e) (opt_user e) (opt_db e) None ins
     = (Inl x, rest0, tr) \<Longrightarrow>
   \<exists>n. script e log ins = (n, None, log)"
  by (cases x) (simp_all add: script_def main_def)

text \<open>
  C9. A run of the script leaves the audit log as it was unless \<^verbatim>\<open>update_password\<close>
  returned \<^verbatim>\<open>True\<close>; in that case the exit code is 0 and the log has gained exactly one
  record, made of the time stamp, the fixed text, the ID of the row that was found and
  its username as stored, and of nothing else (no password, no hash). A run that ends
  with a non-zero exit code leaves the log as it was.
\<close>

theorem audit_log_only_on_success:
  assumes run: "script e log ins = (code, c, log1)"
  shows
    "(log1 = log
      \<or> (\<exists>conn rest0 tr row password launcher_hash testclient_hash conn1.
            connect_database (psycopg2_connect e) (opt_host e) (opt_port e) (opt_user e)
              (opt_db e) None ins = (Inr conn, rest0, tr)
            \<and> row \<in> set (pending conn)
            \<and> generate_launcher_hash (lib e) (urandom e 0) (col_username row) password
                = Inr launcher_hash
            \<and> generate_testclient_hash (lib e) (urandom e 1) password = Inr testclient_hash
            \<and> update_password (update_fault e) conn (col_id row) launcher_hash testclient_hash
                = (Inr True, conn1)
            \<and> code = 0 \<and> c = Some (conn_close conn1)
            \<and> log1 = log @ [asctime e @ '' - Password reset for account ID: ''
                               @ str_int (col_id row) @ '', username: '' @ col_username row]))
     \<and> (code \<noteq> 0 \<longrightarrow> log1 = log)"
proof (cases "connect_database (psycopg2_connect e) (opt_host e) (opt_port e) (opt_user e)
                (opt_db e) None ins")
  case (fields r0 rest0 tr)
  show ?thesis
  proof (cases r0)
    case (Inl x)
    with fields main_not_connected [of e ins x rest0 tr log] run show ?thesis by auto
  next
    case (Inr conn)
    with fields have connected:
      "connect_database (psycopg2_connect e) (opt_host e) (opt_port e) (opt_user e)
         (opt_db e) None ins = (Inr conn, rest0, tr)" by simp
    show ?thesis
    proof (cases rule: main_try_cases [of e conn log rest0])
      case (stopped x)
      from main_connected [OF connected stopped] run show ?thesis by simp
    next
      case (persist account_id exact_username is_inactive rest password rest2 rest3)
      from main_find_account_row [OF persist(1)] obtain row
        where row: "row \<in> set (pending conn)" "account_id = col_id row"
          "exact_username = col_username row" by blast
      show ?thesis
      proof (cases rule: main_persist_cases [of e exact_username password conn account_id log])
        case (updated launcher_hash testclient_hash conn1)
        from persist(4) updated(4)
        have "main_try e conn log rest0
                = (Inr (), conn1, log @ [audit_record (asctime e) account_id exact_username])"
          by simp
        from main_connected [OF connected this] run
        have res: "code = 0" "c = Some (conn_close conn1)"
          "log1 = log @ [audit_record (asctime e) account_id exact_username]"
          by (simp_all add: exit_code_def)
        from res(3) row
        have "log1 = log @ [asctime e @ '' - Password reset for account ID: ''
                               @ str_int (col_id row) @ '', username: '' @ col_username row]"
          by (simp add: audit_record_def)
        with connected row updated(1,2,3) res(1,2) show ?thesis by blast
      next
        case (failed x conn1)
        from persist(4) failed(1)
        have "main_try e conn log rest0 = (Inl x, conn1, log)" by simp
        from main_connected [OF connected this] run show ?thesis by simp
      qed
    qed
  qed
qed

theorem audit_log_only_on_success_witness:
  "script (sample_env (CommitRaises False)) [] [''BOB '', ''secret1'', ''secret1'', '''']
     = (1, Some (conn_close sample_conn), [])
   \<and> script (sample_env NoFault) [] [''alice'', ''secret1'', ''secret1'', ''n'']
     = (0, Some (conn_close sample_conn), [])
   \<and> snd (snd (script (sample_env NoFault) [] [''BOB '', ''secret1'', ''secret1'', '''']))
     = [''2024-05-01 12:00:00 - Password reset for account ID: 2, username: Bob'']"
  (is "?failed \<and> ?aborted \<and> ?logged")
proof -
  have f: ?failed and a: ?aborted and l: ?logged by code_simp+
  from audit_log_only_on_success [OF f] audit_log_only_on_success [OF a] f a l
  show ?thesis by blast
qed

section \<open>Connecting: properties\<close>

text \<open>The loop of \<^verbatim>\<open>connect_database\<close>, unfolded once, with the tests on the message
  named.\<close>

lemma connect_database_loop_unfold:
  "connect_database_loop srv host port user max_attempts database password attempt ins =
     (if attempt < max_attempts then
        with_events
          [Connect \<lparr>arg_host = host, arg_port = port, arg_user = user,
                    arg_password = password, arg_database = database,
                    arg_connect_timeout = 10\<rparr>]
          (case srv attempt \<lparr>arg_host = host, arg_port = port, arg_user = user,
                              arg_password = password, arg_database = database,
                              arg_connect_timeout = 10\<rparr> of
             Connected conn \<Rightarrow> (Inr conn, ins, [])
           | OperationalError e \<Rightarrow>
               if database_missing e then
                 with_events
                   [Print (CHR 0x0A # ''Database '' @ [CHR 0x27] @ database @ [CHR 0x27]
                           @ '' not found on '' @ host @ '':'' @ str_int port),
                    Prompt ''Database name (or Ctrl+C to exit): '']
                   (case py_input ins of
                      (Inl x, rest) \<Rightarrow> (Inl x, rest, [])
                    | (Inr line, rest) \<Rightarrow>
                        connect_database_loop srv host port user max_attempts
                          (if py_strip line = [] then ''psforever'' else py_strip line)
                          password (attempt + 1) rest)
               else if authentication_failed e then
                 with_events
                   [Print (CHR 0x0A # ''Authentication failed for user '' @ [CHR 0x27] @ user
                           @ [CHR 0x27]),
                    Prompt (''Database password for user '' @ [CHR 0x27] @ user @ [CHR 0x27]
                            @ '': '')]
                   (case getpass ins of
                      (Inl x, rest) \<Rightarrow> (Inl x, rest, [])
                    | (Inr password1, rest) \<Rightarrow>
                        connect_database_loop srv host port user max_attempts
                          database password1 (attempt + 1) rest)
               else if connection_refused e then
                 (Inl (SystemExit 1), ins,
                  [Print (CHR 0x0A # ''ERROR: Cannot connect to PostgreSQL at '' @ host @ '':''
                          @ str_int port),
                   Print ''Possible causes:'',
                   Print ''  - PostgreSQL server is not running'',
                   Print ''  - Server is not accepting connections on this address'',
                   Print ''  - Firewall blocking connection'',
                   Print (CHR 0x0A # ''Check PostgreSQL status: sudo systemctl status postgresql'')])
               else
                 with_events
                   (Print (CHR 0x0A # ''Database connection error: '' @ e)
                    # (if attempt + 1 < max_attempts
                       then [Print (''Retrying... (attempt '' @ str_int (int (attempt + 1 + 1))
                                    @ ''/'' @ str_int (int max_attempts) @ '')'')]
                       else []))
                   (connect_database_loop srv host port user max_attempts
                      database password (attempt + 1) ins)
           | OtherException e \<Rightarrow>
               (Inl (SystemExit 1), ins,
                [Print (CHR 0x0A # ''Unexpected error connecting to database: '' @ e)]))
      else (Inl (SystemExit 1), ins,
            [Print (CHR 0x0A # ''Failed to connect after '' @ str_int (int max_attempts)
                    @ '' attempts.'')]))"
  by (subst connect_database_loop.simps)
     (simp only: database_missing_def authentication_failed_def connection_refused_def Let_def)

lemma with_events_parts:
  "fst (with_events evs r) = fst r"
  "fst (snd (with_events evs r)) = fst (snd r)"
  "snd (snd (with_events evs r)) = evs @ snd (snd r)"
  by (simp_all add: with_events_def split: prod.split)

lemma connects_append: "connects (tr @ tr') = connects tr @ connects tr'"
  by (induction tr rule: connects.induct) simp_all

lemma connect_database_loop_attempts:
  "length (connects (snd (snd
     (connect_database_loop srv host port user max_attempts database password attempt ins))))
   \<le> max_attempts - attempt"
proof (induction "max_attempts - attempt" arbitrary: attempt database password ins)
  case 0
  then have "\<not> attempt < max_attempts" by simp
  then show ?case by (subst connect_database_loop_unfold) simp
next
  case (Suc k)
  then have lt: "attempt < max_attempts" and k: "k = max_attempts - (attempt + 1)" by simp_all
  note IH = Suc.hyps(1) [OF k]
  have step: "length (connects (snd (snd
      (connect_database_loop srv host port user max_attempts d pw (Suc attempt) i)))) \<le> k" for d pw i
    using IH [of d pw i] k by simp
  from lt Suc.hyps(2) have bound: "Suc k = max_attempts - attempt" by simp
  show ?case
    by (subst connect_database_loop_unfold)
       (simp add: lt with_events_parts connects_append py_input_def getpass_def step
          bound [symmetric]
          split: connect_result.split list.split)
qed

lemma connect_database_loop_all_fail:
  assumes fail: "\<forall>n args. recoverable_failure (srv n args)"
  shows
    "(fst (connect_database_loop srv host port user max_attempts database password attempt ins)
        = Inl (SystemExit 1)
      \<and> length (connects (snd (snd
           (connect_database_loop srv host port user max_attempts database password attempt ins))))
        = max_attempts - attempt)
     \<or> (fst (connect_database_loop srv host port user max_attempts database password attempt ins)
          = Inl EOFError
        \<and> fst (snd
            (connect_database_loop srv host port user max_attempts database password attempt ins))
          = [])"
proof (induction "max_attempts - attempt" arbitrary: attempt database password ins)
  case 0
  then have "\<not> attempt < max_attempts" by simp
  then show ?case by (subst (1 2) connect_database_loop_unfold) simp
next
  case (Suc k)
  then have lt: "attempt < max_attempts" and k: "k = max_attempts - (attempt + 1)" by simp_all
  from lt Suc.hyps(2) have bound: "max_attempts - attempt = Suc k" by simp
  let ?args = "\<lparr>arg_host = host, arg_port = port, arg_user = user, arg_password = password,
                 arg_database = database, arg_connect_timeout = 10\<rparr>"
  let ?next = "\<lambda>d pw i. connect_database_loop srv host port user max_attempts d pw (attempt + 1) i"
  have step: "(fst (?next d pw i) = Inl (SystemExit 1)
               \<and> length (connects (snd (snd (?next d pw i)))) = k)
              \<or> (fst (?next d pw i) = Inl EOFError \<and> fst (snd (?next d pw i)) = [])" for d pw i
    using Suc.hyps(1) [OF k, of d pw i] k by simp
  from fail have "recoverable_failure (srv attempt ?args)" by blast
  then obtain e where op: "srv attempt ?args = OperationalError e"
    and kind: "database_missing e \<or> authentication_failed e \<or> \<not> connection_refused e"
    by (cases "srv attempt ?args") (simp_all add: recoverable_failure_def)
  show ?case
  proof (cases "database_missing e")
    case True
    show ?thesis
    proof (cases ins)
      case Nil
      with lt op True show ?thesis
        by (subst (1 2 3 4) connect_database_loop_unfold)
           (simp add: with_events_parts py_input_def)
    next
      case (Cons line rest)
      with lt op True
        step [of "if py_strip line = [] then ''psforever'' else py_strip line" password rest]
      show ?thesis
        by (subst (1 2 3 4) connect_database_loop_unfold)
           (simp add: with_events_parts connects_append py_input_def bound)
    qed
  next
    case dm: False
    show ?thesis
    proof (cases "authentication_failed e")
      case True
      show ?thesis
      proof (cases ins)
        case Nil
        with lt op dm True show ?thesis
          by (subst (1 2 3 4) connect_database_loop_unfold)
             (simp add: with_events_parts getpass_def)
      next
        case (Cons password1 rest)
        with lt op dm True step [of database password1 rest]
        show ?thesis
          by (subst (1 2 3 4) connect_database_loop_unfold)
             (simp add: with_events_parts connects_append getpass_def bound)
      qed
    next
      case af: False
      with dm kind have cr: "\<not> connection_refused e" by simp
      with lt op dm af step [of database password ins]
      show ?thesis
        by (subst (1 2 3 4) connect_database_loop_unfold)
           (simp add: with_events_parts connects_append bound)
    qed
  qed
qed

lemma connect_database_loop_answered:
  "max_attempts - attempt \<le> length ins \<Longrightarrow>
   fst (connect_database_loop srv host port user max_attempts database password attempt ins)
     \<noteq> Inl EOFError"
proof (induction "max_attempts - attempt" arbitrary: attempt database password ins)
  case 0
  then have "\<not> attempt < max_attempts" by simp
  then show ?case by (subst connect_database_loop_unfold) simp
next
  case (Suc k)
  then have lt: "attempt < max_attempts" and k: "k = max_attempts - Suc attempt" by simp_all
  have step: "fst (connect_database_loop srv host port user max_attempts d pw (Suc attempt) i)
                \<noteq> Inl EOFError" if "k \<le> length i" for d pw i
    using Suc.hyps(1) [OF k, of i d pw] that k by simp
  from Suc.hyps(2) Suc.prems obtain line rest where ins: "ins = line # rest" and r: "k \<le> length rest"
    by (cases ins) simp_all
  from r have r': "k \<le> Suc (length rest)" by simp
  show ?case
    by (subst connect_database_loop_unfold)
       (simp add: lt ins with_events_parts py_input_def getpass_def step r r'
          split: connect_result.split)
qed

lemma main_connect_exit:
  "fst (connect_database (psycopg2_connect e) (opt_host e) (opt_port e) (opt_user e) (opt_db e)
          None ins) = Inl x \<Longrightarrow>
   x = SystemExit 1 \<or> x = EOFError \<Longrightarrow>
   script e log ins = (1, None, log)"
  by (cases "connect_database (psycopg2_connect e) (opt_host e) (opt_port e) (opt_user e)
               (opt_db e) None ins")
     (auto simp: script_def main_def exit_code_def)

text \<open>
  C5. \<^verbatim>\<open>connect_database\<close> never makes more than 3 connection attempts, whatever the
  server answers. When every attempt fails with a missing database, a failed
  authentication or an error of no known kind, it makes exactly 3 attempts and ends
  with \<^verbatim>\<open>sys.exit(1)\<close>; it does so whenever the operator has an answer for each prompt.
  (If the input ends at a prompt, the prompt raises \<^verbatim>\<open>EOFError\<close> instead.) Either way
  the script ends with exit code 1, without a session and with the audit log as it was.
\<close>

theorem connect_database_three_attempts:
  "length (connects (snd (snd (connect_database srv host port user database password ins)))) \<le> 3
   \<and> ((\<forall>n args. recoverable_failure (srv n args)) \<longrightarrow>
        (fst (connect_database srv host port user database password ins) = Inl (SystemExit 1)
         \<and> length (connects (snd (snd
              (connect_database srv host port user database password ins)))) = 3)
        \<or> (fst (connect_database srv host port user database password ins) = Inl EOFError
            \<and> fst (snd (connect_database srv host port user database password ins)) = []
            \<and> length ins < 3))
   \<and> ((\<forall>n args. recoverable_failure (psycopg2_connect e n args)) \<longrightarrow>
        script e log ins = (1, None, log))"
proof (intro conjI impI)
  define pw where "pw = (case password of None \<Rightarrow> user | Some p \<Rightarrow> p)"
  have loop: "connect_database srv host port user database password ins
                = connect_database_loop srv host port user 3 database pw 0 ins"
    by (simp add: connect_database_def pw_def)
  show "length (connects (snd (snd (connect_database srv host port user database password ins))))
          \<le> 3"
    using connect_database_loop_attempts [of srv host port user 3 database pw 0 ins]
    by (simp add: loop)
  show "(fst (connect_database srv host port user database password ins) = Inl (SystemExit 1)
         \<and> length (connects (snd (snd
              (connect_database srv host port user database password ins)))) = 3)
        \<or> (fst (connect_database srv host port user database password ins) = Inl EOFError
            \<and> fst (snd (connect_database srv host port user database password ins)) = []
            \<and> length ins < 3)"
    if fail: "\<forall>n args. recoverable_failure (srv n args)"
  proof -
    have "length ins < 3"
      if "fst (connect_database_loop srv host port user 3 database pw 0 ins) = Inl EOFError"
      using that connect_database_loop_answered [of 3 0 ins srv host port user database pw]
      by (cases "3 \<le> length ins") simp_all
    with connect_database_loop_all_fail [OF fail, of host port user 3 database pw 0 ins]
    show ?thesis by (auto simp: loop)
  qed
  show "script e log ins = (1, None, log)"
    if fail: "\<forall>n args. recoverable_failure (psycopg2_connect e n args)"
    using connect_database_loop_all_fail
            [OF fail, of "opt_host e" "opt_port e" "opt_user e" 3 "opt_db e" "opt_user e" 0 ins]
      main_connect_exit [of e ins _ log]
    by (auto simp: connect_database_def)
qed

theorem connect_database_three_attempts_witness:
  "(\<forall>n args. recoverable_failure (sample_failing_server n args))
   \<and> (\<forall>n args. recoverable_failure
         (psycopg2_connect (sample_env NoFault\<lparr>psycopg2_connect := sample_failing_server\<rparr>) n args))
   \<and> fst (connect_database sample_failing_server ''localhost'' 5432 ''psforever'' ''psf'' None
            [''psf2'', ''pw1'', ''unused'']) = Inl (SystemExit 1)
   \<and> length (connects (snd (snd
         (connect_database sample_failing_server ''localhost'' 5432 ''psforever'' ''psf'' None
            [''psf2'', ''pw1'', ''unused''])))) = 3
   \<and> script (sample_env NoFault\<lparr>psycopg2_connect := sample_failing_server\<rparr>) []
         [''psf2'', ''pw1'', ''unused''] = (1, None, [])"
  (is "?fails \<and> ?fails' \<and> ?exit \<and> ?three \<and> ?script")
proof -
  have kinds:
    "recoverable_failure (OperationalError ''FATAL:  database psf does not exist'')"
    "recoverable_failure
       (OperationalError ''FATAL:  password authentication failed for user psforever'')"
    "recoverable_failure (OperationalError ''server closed the connection unexpectedly'')"
    by code_simp+
  then have f: ?fails by (simp add: sample_failing_server_def)
  then have f': ?fails' by simp
  have "length [''psf2'', ''pw1'', ''unused''] < 3 \<longleftrightarrow> False" by simp
  with f f' connect_database_three_attempts
         [of sample_failing_server "''localhost''" 5432 "''psforever''" "''psf''" None
            "[''psf2'', ''pw1'', ''unused'']"
            "sample_env NoFault\<lparr>psycopg2_connect := sample_failing_server\<rparr>" "[]"]
  have ?exit ?three ?script by blast+
  with f f' show ?thesis by blast
qed




section \<open>Hash derivation: properties\<close>

lemma hexdigest_digit:
  "\<forall>n \<in> set [0..<16]. encode_utf8_char (''0123456789abcdef'' ! n) = [hex_digit n]"
  by code_simp

lemma hexdigest_digit_below_16:
  "n < 16 \<Longrightarrow> encode_utf8_char (''0123456789abcdef'' ! n) = [hex_digit n]"
  using hexdigest_digit by simp

lemma byte_halves:
  "unat (drop_bit 4 (b :: 8 word)) = unat b div 16" "unat (take_bit 4 b) = unat b mod 16"
  by (simp_all add: unat_drop_bit_eq drop_bit_eq_div unsigned_take_bit_eq take_bit_eq_mod
        unat_div_distrib unat_mod_distrib)

lemma byte_halves_below_16:
  "unat (b :: 8 word) div 16 < 16" "unat b mod 16 < 16"
proof -
  have "unat b < 256" using unsigned_less [of b] by simp
  then show "unat b div 16 < 16" by simp
  show "unat b mod 16 < 16" by simp
qed

lemma encode_utf8_hexdigest: "encode_utf8 (hexdigest digest) = hex_encode digest"
  by (induction digest)
     (simp_all add: encode_utf8_def hexdigest_def hex_encode_def byte_halves
        hexdigest_digit_below_16 byte_halves_below_16)

text \<open>
  C2. \<^verbatim>\<open>generate_launcher_hash\<close> is the launcher hash of the specification: bcrypt with
  work factor 12 and version \<open>2a\<close> of the lowercase hexadecimal encoding of the SHA-256
  digest of the UTF-8 bytes of \<open>username + password\<close>. And when \<^verbatim>\<open>main\<close> completes a
  reset, the hash it has stored was derived from the username of a row of the table, as
  stored there, whatever the operator typed to find the account.
\<close>

theorem generate_launcher_hash_derivation:
  "generate_launcher_hash library rnd username password = deriveLauncherHash library rnd username password
   \<and> (main_try e conn log ins = (Inr (), conn1, log1) \<longrightarrow>
        (\<exists>row \<in> set (pending conn). \<exists>typed launcher_hash testclient_hash.
           deriveLauncherHash (lib e) (urandom e 0) (col_username row) typed = Inr launcher_hash
           \<and> generate_testclient_hash (lib e) (urandom e 1) typed = Inr testclient_hash
           \<and> update_password (update_fault e) conn (col_id row) launcher_hash testclient_hash
               = (Inr True, conn1)))"
proof (intro conjI impI)
  show eq: "generate_launcher_hash library rnd username password
            = deriveLauncherHash library rnd username password" for library rnd username password
    by (simp add: generate_launcher_hash_def deriveLauncherHash_def bcrypt_def
          encode_utf8_hexdigest)
  assume run: "main_try e conn log ins = (Inr (), conn1, log1)"
  show "\<exists>row \<in> set (pending conn). \<exists>typed launcher_hash testclient_hash.
           deriveLauncherHash (lib e) (urandom e 0) (col_username row) typed = Inr launcher_hash
           \<and> generate_testclient_hash (lib e) (urandom e 1) typed = Inr testclient_hash
           \<and> update_password (update_fault e) conn (col_id row) launcher_hash testclient_hash
               = (Inr True, conn1)"
  proof (cases rule: main_try_cases [of e conn log ins])
    case (stopped x)
    with run show ?thesis by simp
  next
    case (persist account_id exact_username is_inactive rest typed rest2 rest3)
    from main_find_account_row [OF persist(1)] obtain row
      where row: "row \<in> set (pending conn)" "account_id = col_id row"
        "exact_username = col_username row" by blast
    show ?thesis
    proof (cases rule: main_persist_cases [of e exact_username typed conn account_id log])
      case (updated launcher_hash testclient_hash conn2)
      with persist(4) run have "conn2 = conn1" by simp
      with updated(1,2,3) row
      have "deriveLauncherHash (lib e) (urandom e 0) (col_username row) typed = Inr launcher_hash
           \<and> generate_testclient_hash (lib e) (urandom e 1) typed = Inr testclient_hash
           \<and> update_password (update_fault e) conn (col_id row) launcher_hash testclient_hash
               = (Inr True, conn1)"
        by (simp add: eq)
      with row(1) show ?thesis by blast
    next
      case (failed x conn2)
      with persist(4) run show ?thesis by simp
    qed
  qed
qed

theorem generate_launcher_hash_derivation_witness:
  "main_try (sample_env NoFault) sample_conn [] [''BOB '', ''secret1'', ''secret1'', '''']
     = (Inr (),
        \<lparr>committed =
           [\<lparr>col_id = 1, col_username = ''Alice'', col_inactive = True,
             col_password = code_points ''$2a$12$oldL1'',
             col_passhash = code_points ''$2a$12$oldT1''\<rparr>,
            \<lparr>col_id = 2, col_username = ''Bob'', col_inactive = False,
             col_password = code_points ''$2a$12$saltL624'',
             col_passhash = code_points ''$2a$12$saltTces''\<rparr>],
         pending =
           [\<lparr>col_id = 1, col_username = ''Alice'', col_inactive = True,
             col_password = code_points ''$2a$12$oldL1'',
             col_passhash = code_points ''$2a$12$oldT1''\<rparr>,
            \<lparr>col_id = 2, col_username = ''Bob'', col_inactive = False,
             col_password = code_points ''$2a$12$saltL624'',
             col_passhash = code_points ''$2a$12$saltTces''\<rparr>],
         closed = False\<rparr>,
        [''2024-05-01 12:00:00 - Password reset for account ID: 2, username: Bob''])
   \<and> (\<exists>row \<in> set (pending sample_conn). \<exists>typed launcher_hash testclient_hash.
         deriveLauncherHash (lib (sample_env NoFault)) (urandom (sample_env NoFault) 0)
           (col_username row) typed = Inr launcher_hash
         \<and> generate_testclient_hash (lib (sample_env NoFault)) (urandom (sample_env NoFault) 1)
             typed = Inr testclient_hash
         \<and> update_password (update_fault (sample_env NoFault)) sample_conn (col_id row)
             launcher_hash testclient_hash
           = (Inr True,
              \<lparr>committed =
                 [\<lparr>col_id = 1, col_username = ''Alice'', col_inactive = True,
                   col_password = code_points ''$2a$12$oldL1'',
                   col_passhash = code_points ''$2a$12$oldT1''\<rparr>,
                  \<lparr>col_id = 2, col_username = ''Bob'', col_inactive = False,
                   col_password = code_points ''$2a$12$saltL624'',
                   col_passhash = code_points ''$2a$12$saltTces''\<rparr>],
               pending =
                 [\<lparr>col_id = 1, col_username = ''Alice'', col_inactive = True,
                   col_password = code_points ''$2a$12$oldL1'',
                   col_passhash = code_points ''$2a$12$oldT1''\<rparr>,
                  \<lparr>col_id = 2, col_username = ''Bob'', col_inactive = False,
                   col_password = code_points ''$2a$12$saltL624'',
                   col_passhash = code_points ''$2a$12$saltTces''\<rparr>],
               closed = False\<rparr>))
   \<and> deriveLauncherHash sample_lib (bytes_literal ''saltL'') ''Bob'' ''secret1''
       = Inr (bytes_literal ''$2a$12$saltL624'')
   \<and> deriveLauncherHash sample_lib (bytes_literal ''saltL'') ''BOB '' ''secret1''
       \<noteq> Inr (bytes_literal ''$2a$12$saltL624'')"
  (is "?run \<and> ?from_row \<and> ?stored \<and> ?typed")
proof -
  have r: ?run by code_simp
  have f: ?from_row
    by (rule generate_launcher_hash_derivation [THEN conjunct2, THEN mp, OF r])
  have "generate_launcher_hash sample_lib (bytes_literal ''saltL'') ''Bob'' ''secret1''
          = Inr (bytes_literal ''$2a$12$saltL624'')"
    "generate_launcher_hash sample_lib (bytes_literal ''saltL'') ''BOB '' ''secret1''
          \<noteq> Inr (bytes_literal ''$2a$12$saltL624'')"
    by code_simp+
  with generate_launcher_hash_derivation
         [of sample_lib "bytes_literal ''saltL''" "''Bob''" "''secret1''"]
       generate_launcher_hash_derivation
         [of sample_lib "bytes_literal ''saltL''" "''BOB ''" "''secret1''"]
  have ?stored ?typed by simp_all
  with r f show ?thesis by blast
qed

lemma generate_testclient_hash_over_limit:
  "72 < length (encode_utf8 password) \<Longrightarrow>
   generate_testclient_hash library rnd password = Inl ValueError"
  by (simp add: generate_testclient_hash_def hashpw_def)

text \<open>
  C3. \<^verbatim>\<open>generate_testclient_hash\<close> hands the UTF-8 bytes of the password itself to
  \<^verbatim>\<open>bcrypt.hashpw\<close> with a salt of work factor 12 and version \<open>2a\<close>. But it does not
  return a hash for every password: when the UTF-8 bytes of the password are more than
  72, \<^verbatim>\<open>hashpw\<close> raises \<^verbatim>\<open>ValueError\<close>, no hash exists to verify, and in \<^verbatim>\<open>main\<close> the
  exception leaves steps 5 and 6 with the session and the audit log as they were.
\<close>

theorem generate_testclient_hash_long_password:
  "(72 < length (encode_utf8 password) \<longrightarrow>
      generate_testclient_hash library rnd password = Inl ValueError)
   \<and> (length (encode_utf8 password) \<le> 72 \<longrightarrow>
        generate_testclient_hash library rnd password
          = hash_with_salt library (encode_utf8 password)
              (gensalt library rnd 12 (bytes_literal ''2a'')))
   \<and> (72 < length (encode_utf8 password) \<longrightarrow>
        (\<exists>x. main_persist e conn log account_id exact_username password = (Inl x, conn, log)))"
proof (intro conjI impI)
  show "generate_testclient_hash library rnd password = Inl ValueError"
    if "72 < length (encode_utf8 password)"
    using that by (rule generate_testclient_hash_over_limit)
  show "generate_testclient_hash library rnd password
          = hash_with_salt library (encode_utf8 password)
              (gensalt library rnd 12 (bytes_literal ''2a''))"
    if "length (encode_utf8 password) \<le> 72"
    using that by (simp add: generate_testclient_hash_def hashpw_def)
  show "\<exists>x. main_persist e conn log account_id exact_username password = (Inl x, conn, log)"
    if long: "72 < length (encode_utf8 password)"
  proof (cases "generate_launcher_hash (lib e) (urandom e 0) exact_username password")
    case (Inl x)
    then show ?thesis by (simp add: main_persist_def)
  next
    case (Inr launcher_hash)
    with generate_testclient_hash_over_limit [OF long, of "lib e" "urandom e 1"]
    show ?thesis by (simp add: main_persist_def)
  qed
qed

theorem generate_testclient_hash_long_password_witness:
  "72 < length (encode_utf8 (replicate 73 CHR ''a''))
   \<and> generate_testclient_hash sample_lib (bytes_literal ''saltT'') (replicate 73 CHR ''a'')
       = Inl ValueError
   \<and> get_password_input 6 [replicate 73 CHR ''a''] = (Inr (replicate 73 CHR ''a''), [])
   \<and> script (sample_env NoFault) []
         [''Bob'', replicate 73 CHR ''a'', replicate 73 CHR ''a'', '''']
       = (1, Some (conn_close sample_conn), [])"
  (is "?long \<and> ?raised \<and> ?accepted \<and> ?exit")
proof -
  have l: ?long by code_simp
  from generate_testclient_hash_long_password
         [of "replicate 73 CHR ''a''" sample_lib "bytes_literal ''saltT''"] l
  have r: ?raised by blast
  have a: ?accepted and x: ?exit by code_simp+
  from l r a x show ?thesis by blast
qed

end
